theory Spec2Isabelle
  imports Complex_Main "HOL-Library.Word" "HOL-Library.Multiset"
begin

section \<open>The curve engine of cpp-core/src/CurveEngine.cpp\<close>

subsection \<open>Doubles\<close>

text \<open>
  A C++ \<open>double\<close> is modelled as a real number or one of the IEEE-754 special values.
  Arithmetic on finite values is exact (rounding and overflow of finite results are not
  modelled) and zero carries no sign: a nonzero finite value divided by zero gives the
  infinity with the sign of the dividend, as a division by \<open>+0.0\<close> does. Every theorem
  below is about this idealised arithmetic.
\<close>

datatype dbl = Fin real | PInf | NInf | NaN

fun dneg :: "dbl \<Rightarrow> dbl" where
  "dneg (Fin a) = Fin (- a)"
| "dneg PInf = NInf"
| "dneg NInf = PInf"
| "dneg NaN = NaN"

fun dadd :: "dbl \<Rightarrow> dbl \<Rightarrow> dbl" where
  "dadd (Fin a) (Fin b) = Fin (a + b)"
| "dadd NaN _ = NaN"
| "dadd _ NaN = NaN"
| "dadd PInf NInf = NaN"
| "dadd NInf PInf = NaN"
| "dadd PInf _ = PInf"
| "dadd _ PInf = PInf"
| "dadd NInf _ = NInf"
| "dadd _ NInf = NInf"

definition dsub :: "dbl \<Rightarrow> dbl \<Rightarrow> dbl" where
  "dsub u v = dadd u (dneg v)"

text \<open>The sign of a nonzero product or quotient with an infinite operand.\<close>

definition signed_inf :: "bool \<Rightarrow> dbl" where
  "signed_inf positive = (if positive then PInf else NInf)"

fun dmul :: "dbl \<Rightarrow> dbl \<Rightarrow> dbl" where
  "dmul (Fin a) (Fin b) = Fin (a * b)"
| "dmul NaN _ = NaN"
| "dmul _ NaN = NaN"
| "dmul PInf (Fin b) = (if b = 0 then NaN else signed_inf (0 < b))"
| "dmul NInf (Fin b) = (if b = 0 then NaN else signed_inf (b < 0))"
| "dmul (Fin a) PInf = (if a = 0 then NaN else signed_inf (0 < a))"
| "dmul (Fin a) NInf = (if a = 0 then NaN else signed_inf (a < 0))"
| "dmul PInf PInf = PInf"
| "dmul NInf NInf = PInf"
| "dmul PInf NInf = NInf"
| "dmul NInf PInf = NInf"

fun ddiv :: "dbl \<Rightarrow> dbl \<Rightarrow> dbl" where
  "ddiv (Fin a) (Fin b) =
     (if b = 0 then (if a = 0 then NaN else signed_inf (0 < a)) else Fin (a / b))"
| "ddiv NaN _ = NaN"
| "ddiv _ NaN = NaN"
| "ddiv (Fin a) PInf = Fin 0"
| "ddiv (Fin a) NInf = Fin 0"
| "ddiv PInf (Fin b) = signed_inf (0 \<le> b)"
| "ddiv NInf (Fin b) = signed_inf (b < 0)"
| "ddiv PInf PInf = NaN"
| "ddiv PInf NInf = NaN"
| "ddiv NInf PInf = NaN"
| "ddiv NInf NInf = NaN"

text \<open>The comparisons \<open><\<close> and \<open><=\<close>: false whenever an operand is NaN.\<close>

fun dless :: "dbl \<Rightarrow> dbl \<Rightarrow> bool" where
  "dless (Fin a) (Fin b) = (a < b)"
| "dless NaN _ = False"
| "dless _ NaN = False"
| "dless NInf NInf = False"
| "dless NInf _ = True"
| "dless PInf _ = False"
| "dless (Fin a) PInf = True"
| "dless (Fin a) NInf = False"

fun dle :: "dbl \<Rightarrow> dbl \<Rightarrow> bool" where
  "dle (Fin a) (Fin b) = (a \<le> b)"
| "dle NaN _ = False"
| "dle _ NaN = False"
| "dle NInf _ = True"
| "dle PInf PInf = True"
| "dle PInf _ = False"
| "dle (Fin a) PInf = True"
| "dle (Fin a) NInf = False"

text \<open>
  \<open>std::clamp(v, lo, hi)\<close> returns \<open>lo\<close> if \<open>v < lo\<close>, \<open>hi\<close> if \<open>hi < v\<close>, and \<open>v\<close>
  otherwise: a NaN passes through unchanged.
\<close>

definition dclamp :: "dbl \<Rightarrow> dbl \<Rightarrow> dbl \<Rightarrow> dbl" where
  "dclamp v lo hi = (if dless v lo then lo else if dless hi v then hi else v)"

text \<open>
  \<open>std::pow\<close>: \<open>pow(x, 0)\<close> and \<open>pow(1, y)\<close> are 1 even for a NaN operand; a zero base
  with a negative exponent is a pole; a negative base needs an integral exponent.
\<close>

definition is_integral :: "real \<Rightarrow> bool" where
  "is_integral e = (e = of_int \<lfloor>e\<rfloor>)"

fun dpow :: "dbl \<Rightarrow> dbl \<Rightarrow> dbl" where
  "dpow (Fin b) (Fin e) =
     (if e = 0 \<or> b = 1 then Fin 1
      else if 0 < b then Fin (b powr e)
      else if b = 0 then (if 0 < e then Fin 0 else PInf)
      else if is_integral e then Fin ((if even \<lfloor>e\<rfloor> then 1 else - 1) * ((- b) powr e))
      else NaN)"
| "dpow NaN (Fin e) = (if e = 0 then Fin 1 else NaN)"
| "dpow PInf (Fin e) = (if e = 0 then Fin 1 else if 0 < e then PInf else Fin 0)"
| "dpow NInf (Fin e) =
     (if e = 0 then Fin 1
      else if 0 < e then (if is_integral e \<and> odd \<lfloor>e\<rfloor> then NInf else PInf)
      else Fin 0)"
| "dpow (Fin b) NaN = (if b = 1 then Fin 1 else NaN)"
| "dpow (Fin b) PInf =
     (if \<bar>b\<bar> = 1 then Fin 1 else if \<bar>b\<bar> < 1 then Fin 0 else PInf)"
| "dpow (Fin b) NInf =
     (if \<bar>b\<bar> = 1 then Fin 1 else if \<bar>b\<bar> < 1 then PInf else Fin 0)"
| "dpow NaN _ = NaN"
| "dpow _ NaN = NaN"
| "dpow _ PInf = PInf"
| "dpow _ NInf = Fin 0"

definition is_fin :: "dbl \<Rightarrow> bool" where
  "is_fin v = (case v of Fin _ \<Rightarrow> True | _ \<Rightarrow> False)"

text \<open>A sample lies in [0,1]: it is a number, and between 0 and 1.\<close>

definition in_unit :: "dbl \<Rightarrow> bool" where
  "in_unit v = (case v of Fin r \<Rightarrow> 0 \<le> r \<and> r \<le> 1 | _ \<Rightarrow> False)"

subsection \<open>Control points and spline segments\<close>

text \<open>
  \<open>struct CurvePoint { double x, y; }\<close>. The fields are named \<open>pt_x\<close> and \<open>pt_y\<close>
  here, and those of \<open>SplineSegment\<close> \<open>seg_a\<close> \<dots> \<open>seg_d\<close>, so that the one-letter
  names stay free for variables.
\<close>

record CurvePoint =
  pt_x :: dbl
  pt_y :: dbl

record SplineSegment =
  seg_a :: dbl
  seg_b :: dbl
  seg_c :: dbl
  seg_d :: dbl
  x_start :: dbl
  x_end :: dbl

text \<open>
  \<open>CubicSplineInterpolator::calculateSplineSegments\<close>. Each array of the source is the
  function giving its entry at an index; every index the model reads is one the source
  reads, and all of them are inside the arrays.

  \<open>h[i] = points[i + 1].x - points[i].x\<close>
\<close>

definition spline_h :: "CurvePoint list \<Rightarrow> nat \<Rightarrow> dbl" where
  "spline_h points i = dsub (pt_x (points ! (i + 1))) (pt_x (points ! i))"

text \<open>
  \<open>alpha[i] = (3.0 / h[i]) * (points[i + 1].y - points[i].y)
             - (3.0 / h[i - 1]) * (points[i].y - points[i - 1].y)\<close>, for \<open>1 \<le> i < n - 1\<close>.
\<close>

definition spline_alpha :: "CurvePoint list \<Rightarrow> nat \<Rightarrow> dbl" where
  "spline_alpha points i =
     dsub (dmul (ddiv (Fin 3) (spline_h points i))
                (dsub (pt_y (points ! (i + 1))) (pt_y (points ! i))))
          (dmul (ddiv (Fin 3) (spline_h points (i - 1)))
                (dsub (pt_y (points ! i)) (pt_y (points ! (i - 1)))))"

text \<open>
  The forward sweep of the tridiagonal system: entry \<open>i\<close> of \<open>l\<close>, \<open>mu\<close> and \<open>z\<close>, where
  \<open>l[0] = 1, mu[0] = 0, z[0] = 0\<close> and, for \<open>1 \<le> i < n - 1\<close>,
  \<open>l[i] = 2.0 * (points[i + 1].x - points[i - 1].x) - h[i - 1] * mu[i - 1]\<close>,
  \<open>mu[i] = h[i] / l[i]\<close>, \<open>z[i] = (alpha[i] - h[i - 1] * z[i - 1]) / l[i]\<close>.
\<close>

fun spline_lmz :: "CurvePoint list \<Rightarrow> nat \<Rightarrow> dbl \<times> dbl \<times> dbl" where
  "spline_lmz points 0 = (Fin 1, Fin 0, Fin 0)"
| "spline_lmz points (Suc k) =
     (case spline_lmz points k of (l', mu', z') \<Rightarrow>
        let i = Suc k;
            l = dsub (dmul (Fin 2) (dsub (pt_x (points ! (i + 1))) (pt_x (points ! (i - 1)))))
                     (dmul (spline_h points (i - 1)) mu');
            mu = ddiv (spline_h points i) l;
            z = ddiv (dsub (spline_alpha points i) (dmul (spline_h points (i - 1)) z')) l
        in (l, mu, z))"

definition spline_l :: "CurvePoint list \<Rightarrow> nat \<Rightarrow> dbl" where
  "spline_l points i = fst (spline_lmz points i)"

definition spline_mu :: "CurvePoint list \<Rightarrow> nat \<Rightarrow> dbl" where
  "spline_mu points i = fst (snd (spline_lmz points i))"

definition spline_z :: "CurvePoint list \<Rightarrow> nat \<Rightarrow> dbl" where
  "spline_z points i = snd (snd (spline_lmz points i))"

text \<open>
  Back substitution, from \<open>j = n - 2\<close> down to 0: \<open>c[n - 1] = 0\<close> and
  \<open>c[j] = z[j] - mu[j] * c[j + 1]\<close>.
\<close>

function spline_c :: "CurvePoint list \<Rightarrow> nat \<Rightarrow> dbl" where
  "spline_c points j =
     (if length points \<le> j + 1 then Fin 0
      else dsub (spline_z points j) (dmul (spline_mu points j) (spline_c points (j + 1))))"
  by pat_completeness auto
termination
  by (relation "measure (\<lambda>(points, j). length points - j)") auto

declare spline_c.simps [simp del]

text \<open>
  \<open>b[j] = (points[j + 1].y - points[j].y) / h[j] - h[j] * (c[j + 1] + 2.0 * c[j]) / 3.0\<close>
  and \<open>d[j] = (c[j + 1] - c[j]) / (3.0 * h[j])\<close>.
\<close>

definition spline_b :: "CurvePoint list \<Rightarrow> nat \<Rightarrow> dbl" where
  "spline_b points j =
     dsub (ddiv (dsub (pt_y (points ! (j + 1))) (pt_y (points ! j))) (spline_h points j))
          (ddiv (dmul (spline_h points j)
                      (dadd (spline_c points (j + 1)) (dmul (Fin 2) (spline_c points j))))
                (Fin 3))"

definition spline_d :: "CurvePoint list \<Rightarrow> nat \<Rightarrow> dbl" where
  "spline_d points j =
     ddiv (dsub (spline_c points (j + 1)) (spline_c points j))
          (dmul (Fin 3) (spline_h points j))"

definition calculateSplineSegments :: "CurvePoint list \<Rightarrow> SplineSegment list" where
  "calculateSplineSegments points =
     (if length points < 2 then []
      else map (\<lambda>i. \<lparr> seg_a = pt_y (points ! i),
                       seg_b = spline_b points i,
                       seg_c = spline_c points i,
                       seg_d = spline_d points i,
                       x_start = pt_x (points ! i),
                       x_end = pt_x (points ! (i + 1)) \<rparr>)
               [0 ..< length points - 1])"

text \<open>
  The cubic of a segment at offset \<open>dx\<close>, with the source's order of operations:
  \<open>a + b * dx + c * dx * dx + d * dx * dx * dx\<close>.
\<close>

definition seg_poly :: "SplineSegment \<Rightarrow> dbl \<Rightarrow> dbl" where
  "seg_poly s dx =
     dadd (dadd (dadd (seg_a s) (dmul (seg_b s) dx))
                (dmul (dmul (seg_c s) dx) dx))
          (dmul (dmul (dmul (seg_d s) dx) dx) dx)"

text \<open>
  \<open>CubicSplineInterpolator::evaluate\<close>. \<open>std::lower_bound\<close> with the comparison
  \<open>seg.x_end < val\<close> returns the first segment whose \<open>x_end\<close> is not below \<open>x\<close>; when
  there is none the source takes the last segment.
\<close>

definition evaluate :: "SplineSegment list \<Rightarrow> dbl \<Rightarrow> dbl" where
  "evaluate segments x =
     (if segments = [] then x
      else if dle x (x_start (hd segments)) then seg_a (hd segments)
      else if dle (x_end (last segments)) x then
        seg_poly (last segments) (dsub (x_end (last segments)) (x_start (last segments)))
      else
        (case find (\<lambda>seg. \<not> dless (x_end seg) x) segments of
           Some segment \<Rightarrow> seg_poly segment (dsub x (x_start segment))
         | None \<Rightarrow> seg_poly (last segments) (dsub x (x_start (last segments)))))"

subsection \<open>The lookup-table generator\<close>

text \<open>
  Sample \<open>i\<close> of a table of \<open>size\<close> entries is taken at
  \<open>static_cast<double>(i) / (size - 1)\<close>; \<open>size - 1\<close> is an \<open>int\<close>, converted to double.
\<close>

definition sample_x :: "nat \<Rightarrow> nat \<Rightarrow> dbl" where
  "sample_x sz i = ddiv (Fin (real i)) (Fin (real_of_int (int sz - 1)))"

text \<open>
  \<open>linearInterpolate\<close>: the scan for the first interval \<open>i\<close> with
  \<open>points[i].x <= x <= points[i + 1].x\<close>; \<open>None\<close> when the loop ends without a hit.
\<close>

fun linear_scan :: "CurvePoint list \<Rightarrow> dbl \<Rightarrow> dbl option" where
  "linear_scan (p # q # rest) x =
     (if dle (pt_x p) x \<and> dle x (pt_x q) then
        (let t = ddiv (dsub x (pt_x p)) (dsub (pt_x q) (pt_x p))
         in Some (dadd (pt_y p) (dmul t (dsub (pt_y q) (pt_y p)))))
      else linear_scan (q # rest) x)"
| "linear_scan _ x = None"

definition linearInterpolate :: "CurvePoint list \<Rightarrow> dbl \<Rightarrow> dbl" where
  "linearInterpolate points x =
     (if points = [] then x
      else if length points = 1 then pt_y (points ! 0)
      else if dle x (pt_x (points ! 0)) then pt_y (points ! 0)
      else if dle (pt_x (last points)) x then pt_y (last points)
      else (case linear_scan points x of Some v \<Rightarrow> v | None \<Rightarrow> x))"

definition generateLinearLUT :: "CurvePoint list \<Rightarrow> nat \<Rightarrow> dbl list" where
  "generateLinearLUT points sz =
     map (\<lambda>i. linearInterpolate points (sample_x sz i)) [0 ..< sz]"

definition generateCubicSplineLUT :: "CurvePoint list \<Rightarrow> nat \<Rightarrow> dbl list" where
  "generateCubicSplineLUT points sz =
     (let segments = calculateSplineSegments points
      in map (\<lambda>i. dclamp (evaluate segments (sample_x sz i)) (Fin 0) (Fin 1)) [0 ..< sz])"

text \<open>
  \<open>evaluateBezier\<close>: De Casteljau's algorithm, in place. Pass \<open>i\<close> of the outer loop
  replaces \<open>temp[j]\<close> by \<open>(1 - t) * temp[j] + t * temp[j + 1]\<close> for \<open>j < n - i\<close>, reading
  \<open>temp[j + 1]\<close> before it is overwritten; the entries from \<open>n - i\<close> on are left alone.
  Only the first \<open>n - i\<close> entries are read again, so a pass is modelled on that prefix.
\<close>

definition lerp_point :: "dbl \<Rightarrow> CurvePoint \<Rightarrow> CurvePoint \<Rightarrow> CurvePoint" where
  "lerp_point t p q =
     \<lparr> pt_x = dadd (dmul (dsub (Fin 1) t) (pt_x p)) (dmul t (pt_x q)),
       pt_y = dadd (dmul (dsub (Fin 1) t) (pt_y p)) (dmul t (pt_y q)) \<rparr>"

fun bezier_pass :: "dbl \<Rightarrow> CurvePoint list \<Rightarrow> CurvePoint list" where
  "bezier_pass t (p # q # rest) = lerp_point t p q # bezier_pass t (q # rest)"
| "bezier_pass t _ = []"

function de_casteljau :: "dbl \<Rightarrow> CurvePoint list \<Rightarrow> CurvePoint list" where
  "de_casteljau t temp =
     (if length temp \<le> 1 then temp else de_casteljau t (bezier_pass t temp))"
  by pat_completeness auto

lemma length_bezier_pass: "length (bezier_pass t ps) = length ps - 1"
  by (induction t ps rule: bezier_pass.induct) auto

termination de_casteljau
  by (relation "measure (\<lambda>(t, temp). length temp)") (auto simp: length_bezier_pass)

declare de_casteljau.simps [simp del]

definition evaluateBezier :: "CurvePoint list \<Rightarrow> dbl \<Rightarrow> dbl" where
  "evaluateBezier points t =
     (if points = [] then t
      else dclamp (pt_y (hd (de_casteljau t points))) (Fin 0) (Fin 1))"

definition generateBezierLUT :: "CurvePoint list \<Rightarrow> nat \<Rightarrow> dbl list" where
  "generateBezierLUT points sz =
     map (\<lambda>i. evaluateBezier points (sample_x sz i)) [0 ..< sz]"

text \<open>\<open>generateParametricLUT\<close> and its three scalars.\<close>

definition parametric_gamma :: "CurvePoint list \<Rightarrow> dbl" where
  "parametric_gamma points =
     (if length points > 2 then ddiv (pt_y (points ! 1)) (pt_x (points ! 1)) else Fin 1)"

definition parametric_lift :: "CurvePoint list \<Rightarrow> dbl" where
  "parametric_lift points = (if points = [] then Fin 0 else pt_y (points ! 0))"

definition parametric_gain :: "CurvePoint list \<Rightarrow> dbl" where
  "parametric_gain points = (if length points > 1 then pt_y (last points) else Fin 1)"

definition generateParametricLUT :: "CurvePoint list \<Rightarrow> nat \<Rightarrow> dbl list" where
  "generateParametricLUT points sz =
     (let gamma = parametric_gamma points;
          lift = parametric_lift points;
          gain = parametric_gain points
      in map (\<lambda>i. let x = sample_x sz i;
                       y = dadd lift (dmul (dsub gain lift) (dpow x gamma))
                   in dclamp y (Fin 0) (Fin 1))
             [0 ..< sz])"

text \<open>
  \<open>generateAIOptimizedLUT\<close>: both branches of the \<open>#ifdef DIRECTML_ENABLED\<close> are the one
  call of \<open>generateCubicSplineLUT\<close>.
\<close>

definition generateAIOptimizedLUT :: "CurvePoint list \<Rightarrow> nat \<Rightarrow> dbl list" where
  "generateAIOptimizedLUT points sz = generateCubicSplineLUT points sz"

text \<open>
  \<open>CurveType\<close> is a C enum: the API takes any value of its underlying integer type, so
  the model keeps the integer. The \<open>switch\<close> of \<open>generateOptimizedLUT\<close> has no
  \<open>default\<close>: for any other value the table stays as \<open>std::vector<double> lut(size)\<close>
  made it, \<open>size\<close> zeros.
\<close>

type_synonym CurveType = int

definition CURVE_TYPE_LINEAR :: CurveType where "CURVE_TYPE_LINEAR = 0"
definition CURVE_TYPE_CUBIC_SPLINE :: CurveType where "CURVE_TYPE_CUBIC_SPLINE = 1"
definition CURVE_TYPE_BEZIER :: CurveType where "CURVE_TYPE_BEZIER = 2"
definition CURVE_TYPE_PARAMETRIC :: CurveType where "CURVE_TYPE_PARAMETRIC = 3"
definition CURVE_TYPE_AI_OPTIMIZED :: CurveType where "CURVE_TYPE_AI_OPTIMIZED = 4"

lemmas curve_type_defs =
  CURVE_TYPE_LINEAR_def CURVE_TYPE_CUBIC_SPLINE_def CURVE_TYPE_BEZIER_def
  CURVE_TYPE_PARAMETRIC_def CURVE_TYPE_AI_OPTIMIZED_def

definition generateOptimizedLUT :: "CurvePoint list \<Rightarrow> CurveType \<Rightarrow> nat \<Rightarrow> dbl list" where
  "generateOptimizedLUT points type sz =
     (if type = CURVE_TYPE_LINEAR then generateLinearLUT points sz
      else if type = CURVE_TYPE_CUBIC_SPLINE then generateCubicSplineLUT points sz
      else if type = CURVE_TYPE_BEZIER then generateBezierLUT points sz
      else if type = CURVE_TYPE_PARAMETRIC then generateParametricLUT points sz
      else if type = CURVE_TYPE_AI_OPTIMIZED then generateAIOptimizedLUT points sz
      else replicate sz (Fin 0))"

subsection \<open>The pixel applicator\<close>

datatype ColorChannel =
  CHANNEL_RGB | CHANNEL_RED | CHANNEL_GREEN | CHANNEL_BLUE
| CHANNEL_LUMINANCE | CHANNEL_LAB_L | CHANNEL_LAB_A | CHANNEL_LAB_B

text \<open>
  \<open>struct ImageData\<close>: \<open>data\<close> points to 8-bit samples, modelled as the list of the
  bytes of the buffer. An access outside the buffer is undefined behaviour in C++; the
  model returns \<open>None\<close> there. The input and the output buffer are two lists: a call with
  overlapping buffers is outside the model. Offsets are natural numbers (the wrap-around
  of \<open>int\<close> and \<open>size_t\<close> offsets is not modelled).
\<close>

record ImageData =
  img_data :: "8 word list"
  img_width :: int
  img_height :: int
  img_channels :: int
  img_stride :: nat

definition read_byte :: "8 word list \<Rightarrow> nat \<Rightarrow> 8 word option" where
  "read_byte buf i = (if i < length buf then Some (buf ! i) else None)"

definition write_byte :: "8 word list \<Rightarrow> nat \<Rightarrow> 8 word \<Rightarrow> 8 word list option" where
  "write_byte buf i v = (if i < length buf then Some (buf[i := v]) else None)"

text \<open>
  A \<open>for\<close> loop over the indices \<open>is\<close> whose body may fail: the state is threaded
  through, and the first failure ends the loop.
\<close>

fun for_each :: "'i list \<Rightarrow> ('i \<Rightarrow> 's \<Rightarrow> 's option) \<Rightarrow> 's \<Rightarrow> 's option" where
  "for_each [] body s = Some s"
| "for_each (i # is) body s =
     (case body i s of None \<Rightarrow> None | Some s' \<Rightarrow> for_each is body s')"

text \<open>
  \<open>static_cast<int>(double)\<close> truncates toward zero and is undefined when the truncated
  value does not fit a 32-bit \<open>int\<close>; \<open>static_cast<uint8_t>(double)\<close> likewise for
  \<open>0..255\<close>.
\<close>

definition truncate_real :: "real \<Rightarrow> int" where
  "truncate_real r = (if 0 \<le> r then \<lfloor>r\<rfloor> else \<lceil>r\<rceil>)"

definition double_to_int :: "dbl \<Rightarrow> int option" where
  "double_to_int v =
     (case v of
        Fin r \<Rightarrow>
          (if - (2 ^ 31) \<le> truncate_real r \<and> truncate_real r < 2 ^ 31
           then Some (truncate_real r) else None)
      | _ \<Rightarrow> None)"

definition double_to_uint8 :: "dbl \<Rightarrow> 8 word option" where
  "double_to_uint8 v =
     (case v of
        Fin r \<Rightarrow>
          (if 0 \<le> truncate_real r \<and> truncate_real r < 256
           then Some (word_of_int (truncate_real r)) else None)
      | _ \<Rightarrow> None)"

text \<open>
  The table lookup of one sample (lines 317-333, and again 339-354).
  \<open>lut_scale = lut_size - 1\<close> is computed in \<open>size_t\<close> (64 bits) and wraps for an empty
  table; \<open>static_cast<int>(lut_size)\<close> keeps the low 32 bits.
\<close>

definition lut_apply :: "dbl list \<Rightarrow> 8 word \<Rightarrow> 8 word option" where
  "lut_apply lut val =
     (let lut_size = length lut;
          lut_scale = Fin (real ((lut_size + 2 ^ 64 - 1) mod 2 ^ 64));
          normalized = ddiv (Fin (real (unat val))) (Fin 255);
          lut_pos = dmul normalized lut_scale
      in case double_to_int lut_pos of
           None \<Rightarrow> None
         | Some lut_index \<Rightarrow>
             let frac = dsub lut_pos (Fin (real_of_int lut_index)) in
             if sint (word_of_nat lut_size :: 32 word) - 1 \<le> lut_index then
               (if lut_size = 0 then None
                else double_to_uint8
                       (dclamp (dadd (dmul (lut ! (lut_size - 1)) (Fin 255)) (Fin (1 / 2)))
                               (Fin 0) (Fin 255)))
             else if 0 \<le> lut_index \<and> nat lut_index + 1 < lut_size then
               double_to_uint8
                 (dclamp
                    (dadd (dmul (dadd (lut ! nat lut_index)
                                      (dmul frac (dsub (lut ! (nat lut_index + 1))
                                                       (lut ! nat lut_index))))
                                (Fin 255))
                          (Fin (1 / 2)))
                    (Fin 0) (Fin 255))
             else None)"

definition getChannelIndex :: "ColorChannel \<Rightarrow> int" where
  "getChannelIndex channel =
     (case channel of
        CHANNEL_RED \<Rightarrow> 0
      | CHANNEL_GREEN \<Rightarrow> 1
      | CHANNEL_BLUE \<Rightarrow> 2
      | _ \<Rightarrow> - 1)"

text \<open>\<open>dst[d] = lut(src[s])\<close> and \<open>dst[d] = src[s]\<close>.\<close>

definition map_sample :: "dbl list \<Rightarrow> 8 word list \<Rightarrow> nat \<Rightarrow> nat \<Rightarrow> 8 word list \<Rightarrow> 8 word list option" where
  "map_sample lut src s d dst =
     (case read_byte src s of
        None \<Rightarrow> None
      | Some val \<Rightarrow>
          (case lut_apply lut val of None \<Rightarrow> None | Some r \<Rightarrow> write_byte dst d r))"

definition copy_sample :: "8 word list \<Rightarrow> nat \<Rightarrow> nat \<Rightarrow> 8 word list \<Rightarrow> 8 word list option" where
  "copy_sample src s d dst =
     (case read_byte src s of None \<Rightarrow> None | Some val \<Rightarrow> write_byte dst d val)"

text \<open>
  The body of the loop over \<open>x\<close> (lines 312-368): \<open>src_row\<close> and \<open>dst_row\<close> are the
  offsets of row \<open>y\<close> in the two buffers.
\<close>

definition apply_pixel ::
  "dbl list \<Rightarrow> ColorChannel \<Rightarrow> int \<Rightarrow> 8 word list \<Rightarrow> nat \<Rightarrow> nat \<Rightarrow> nat \<Rightarrow> 8 word list
   \<Rightarrow> 8 word list option" where
  "apply_pixel lut channel channels src src_row dst_row x dst =
     (let pixel_offset = x * nat channels in
      case
        (if channel = CHANNEL_RGB \<or> channel = CHANNEL_LUMINANCE then
           for_each [0 ..< nat (min 3 channels)]
             (\<lambda>c. map_sample lut src (src_row + pixel_offset + c) (dst_row + pixel_offset + c))
             dst
         else
           (let channel_index = getChannelIndex channel in
            if 0 \<le> channel_index \<and> channel_index < channels then
              (case map_sample lut src (src_row + pixel_offset + nat channel_index)
                      (dst_row + pixel_offset + nat channel_index) dst of
                 None \<Rightarrow> None
               | Some dst' \<Rightarrow>
                   for_each [0 ..< nat channels]
                     (\<lambda>c d. if int c \<noteq> channel_index
                            then copy_sample src (src_row + pixel_offset + c)
                                   (dst_row + pixel_offset + c) d
                            else Some d)
                     dst')
            else Some dst))
      of
        None \<Rightarrow> None
      | Some dst' \<Rightarrow>
          (if channels = 4
           then copy_sample src (src_row + pixel_offset + 3) (dst_row + pixel_offset + 3) dst'
           else Some dst'))"

text \<open>
  \<open>ImageCurveProcessor::applyLUTCPU\<close>. The rows are distributed over threads by OpenMP;
  the model runs them in order. The result is the content of the output buffer.
\<close>

definition applyLUTCPU ::
  "dbl list \<Rightarrow> ImageData \<Rightarrow> ImageData \<Rightarrow> ColorChannel \<Rightarrow> 8 word list option" where
  "applyLUTCPU lut input output channel =
     for_each [0 ..< nat (img_height input)]
       (\<lambda>y. for_each [0 ..< nat (img_width input)]
               (apply_pixel lut channel (img_channels input) (img_data input)
                  (y * img_stride input) (y * img_stride output)))
       (img_data output)"

text \<open>
  \<open>applyLUTToImage\<close>: \<open>applyLUTGPU\<close> has no code of its own and falls back to
  \<open>applyLUTCPU\<close>, so both branches are the CPU path.
\<close>

record ProcessingOptions =
  use_gpu :: bool
  thread_count :: int

definition applyLUTToImage ::
  "dbl list \<Rightarrow> ImageData \<Rightarrow> ImageData \<Rightarrow> ColorChannel \<Rightarrow> ProcessingOptions
   \<Rightarrow> 8 word list option" where
  "applyLUTToImage lut input output channel options = applyLUTCPU lut input output channel"

subsection \<open>The C API\<close>

datatype CurveResult =
  CURVE_SUCCESS | CURVE_ERROR_INVALID_PARAMS | CURVE_ERROR_OUT_OF_MEMORY
| CURVE_ERROR_NOT_INITIALIZED | CURVE_ERROR_GPU_NOT_AVAILABLE
| CURVE_ERROR_ML_NOT_AVAILABLE | CURVE_ERROR_UNSUPPORTED_FORMAT

text \<open>
  \<open>struct CurveData\<close>; the array \<open>points\<close> and its \<open>point_count\<close> are one list. The
  global state read by the API is the flag \<open>g_initialized\<close>.
\<close>

record CurveData =
  cd_points :: "CurvePoint list"
  cd_type :: CurveType
  cd_channel :: ColorChannel
  cd_gamma :: dbl
  cd_black_point :: dbl
  cd_white_point :: dbl
  cd_lut_size :: int

record engine_state =
  g_initialized :: bool

definition initial_state :: engine_state where
  "initial_state = \<lparr> g_initialized = False \<rparr>"

definition curve_initialize :: "engine_state \<Rightarrow> CurveResult \<times> engine_state" where
  "curve_initialize st = (CURVE_SUCCESS, st\<lparr> g_initialized := True \<rparr>)"

definition curve_cleanup :: "engine_state \<Rightarrow> engine_state" where
  "curve_cleanup st = (if \<not> g_initialized st then st else st\<lparr> g_initialized := False \<rparr>)"

definition DEFAULT_LUT_SIZE :: int where
  "DEFAULT_LUT_SIZE = 4096"

definition clamp_point :: "CurvePoint \<Rightarrow> CurvePoint" where
  "clamp_point p =
     \<lparr> pt_x = dclamp (pt_x p) (Fin 0) (Fin 1), pt_y = dclamp (pt_y p) (Fin 0) (Fin 1) \<rparr>"

text \<open>
  \<open>curve_create\<close>. A null pointer is \<open>None\<close>; the caller's array \<open>points\<close> with its
  \<open>point_count\<close> is one list, and \<open>out_curve\<close> is given by whether it is non-null. The
  result is the return value and the curve stored through \<open>out_curve\<close>, if any.
  Allocation failure is not modelled.

  \<open>std::sort\<close> is library code: the model takes the sorting routine as the parameter
  \<open>sort_impl\<close>. What the C++ standard promises of it, for the comparison
  \<open>a.x < b.x\<close>, is \<open>std_sort_contract\<close>: on a range where the comparison is a strict weak
  order (no NaN in \<open>x\<close>) the result is a permutation of the range in which no element is
  below an earlier one. The order of elements with equal \<open>x\<close> is left open.
\<close>

definition x_less :: "CurvePoint \<Rightarrow> CurvePoint \<Rightarrow> bool" where
  "x_less p q = dless (pt_x p) (pt_x q)"


definition curve_create ::
  "(CurvePoint list \<Rightarrow> CurvePoint list) \<Rightarrow> engine_state \<Rightarrow> CurvePoint list option \<Rightarrow>
   CurveType \<Rightarrow> bool \<Rightarrow> CurveResult \<times> CurveData option" where
  "curve_create sort_impl st points type out_curve =
     (case points of
        None \<Rightarrow> (CURVE_ERROR_INVALID_PARAMS, None)
      | Some pts \<Rightarrow>
          if length pts < 2 \<or> \<not> out_curve then (CURVE_ERROR_INVALID_PARAMS, None)
          else if \<not> g_initialized st then (CURVE_ERROR_NOT_INITIALIZED, None)
          else (CURVE_SUCCESS,
                Some \<lparr> cd_points = sort_impl (map clamp_point pts),
                       cd_type = type,
                       cd_channel = CHANNEL_RGB,
                       cd_gamma = Fin 1,
                       cd_black_point = Fin 0,
                       cd_white_point = Fin 1,
                       cd_lut_size = DEFAULT_LUT_SIZE \<rparr>))"

text \<open>
  \<open>curve_generate_lut\<close>: \<open>lut\<close> and \<open>lut_size\<close> are given by whether they are non-null.
  A negative \<open>curve->lut_size\<close> makes the constructor of the table throw
  \<open>std::length_error\<close>, which \<open>catch (...)\<close> turns into \<open>CURVE_ERROR_INVALID_PARAMS\<close>.
  The function does not read \<open>g_initialized\<close>.
\<close>

definition curve_generate_lut ::
  "engine_state \<Rightarrow> CurveData option \<Rightarrow> bool \<Rightarrow> bool \<Rightarrow> CurveResult \<times> dbl list option" where
  "curve_generate_lut st curve lut lut_size =
     (case curve of
        None \<Rightarrow> (CURVE_ERROR_INVALID_PARAMS, None)
      | Some c \<Rightarrow>
          if \<not> lut \<or> \<not> lut_size then (CURVE_ERROR_INVALID_PARAMS, None)
          else if cd_lut_size c < 0 then (CURVE_ERROR_INVALID_PARAMS, None)
          else (CURVE_SUCCESS,
                Some (generateOptimizedLUT (cd_points c) (cd_type c) (nat (cd_lut_size c)))))"

text \<open>
  \<open>curve_apply_to_image\<close>: the result is the return value and the content of the output
  buffer afterwards; the whole call is \<open>None\<close> when the pixel loop leaves a buffer.
  A null \<open>options\<close> stands for the default options.
\<close>

definition curve_apply_to_image ::
  "engine_state \<Rightarrow> CurveData option \<Rightarrow> ImageData option \<Rightarrow> ImageData option \<Rightarrow>
   ProcessingOptions option \<Rightarrow> (CurveResult \<times> 8 word list option) option" where
  "curve_apply_to_image st curve input output options =
     (case (curve, input, output) of
        (Some c, Some inp, Some out) \<Rightarrow>
          if \<not> g_initialized st then Some (CURVE_ERROR_NOT_INITIALIZED, None)
          else if cd_lut_size c < 0 then Some (CURVE_ERROR_INVALID_PARAMS, None)
          else
            (let lut = generateOptimizedLUT (cd_points c) (cd_type c) (nat (cd_lut_size c));
                 opts = (case options of
                           Some given \<Rightarrow> given
                         | None \<Rightarrow> \<lparr> use_gpu = False, thread_count = 0 \<rparr>)
             in case applyLUTToImage lut inp out (cd_channel c) opts of
                  None \<Rightarrow> None
                | Some buf \<Rightarrow> Some (CURVE_SUCCESS, Some buf))
      | _ \<Rightarrow> Some (CURVE_ERROR_INVALID_PARAMS, None))"

subsection \<open>Auxiliary definitions for the properties\<close>

text \<open>
  The divisors of \<open>calculateSplineSegments\<close>, in the order the source divides: by
  \<open>h[i]\<close> and \<open>h[i - 1]\<close> for \<open>alpha[i]\<close> (lines 69-70), twice by \<open>l[i]\<close> in the sweep
  (lines 80-81), and by \<open>h[j]\<close>, \<open>3.0\<close> and \<open>3.0 * h[j]\<close> in the back substitution (lines
  91-92); and the divisor of \<open>generateParametricLUT\<close> (line 205).
\<close>

definition spline_divisors :: "CurvePoint list \<Rightarrow> dbl list" where
  "spline_divisors points =
     (if length points < 2 then []
      else
        concat (map (\<lambda>i. [spline_h points i, spline_h points (i - 1)]) [1 ..< length points - 1]) @
        concat (map (\<lambda>i. [spline_l points i, spline_l points i]) [1 ..< length points - 1]) @
        concat (map (\<lambda>j. [spline_h points j, Fin 3, dmul (Fin 3) (spline_h points j)])
                    (rev [0 ..< length points - 1])))"

definition parametric_divisors :: "CurvePoint list \<Rightarrow> dbl list" where
  "parametric_divisors points = (if length points > 2 then [pt_x (points ! 1)] else [])"

text \<open>
  A sorting routine that meets \<open>std_sort_contract\<close> and is not stable: insertion sort
  that puts each element before the elements equal to it, so that points with equal
  \<open>x\<close> come out in reverse input order.
\<close>

fun insert_before_equal :: "CurvePoint \<Rightarrow> CurvePoint list \<Rightarrow> CurvePoint list" where
  "insert_before_equal p [] = [p]"
| "insert_before_equal p (q # qs) =
     (if x_less q p then q # insert_before_equal p qs else p # q # qs)"

definition tie_reversing_sort :: "CurvePoint list \<Rightarrow> CurvePoint list" where
  "tie_reversing_sort ps = fold insert_before_equal ps []"

text \<open>A point set as \<open>curve_create\<close> stores it: every coordinate a number in [0,1].\<close>

definition valid_point :: "CurvePoint \<Rightarrow> bool" where
  "valid_point p = (in_unit (pt_x p) \<and> in_unit (pt_y p))"

definition valid_points :: "CurvePoint list \<Rightarrow> bool" where
  "valid_points points = list_all valid_point points"

text \<open>The curve types the enumeration names.\<close>

definition enumerated_type :: "CurveType \<Rightarrow> bool" where
  "enumerated_type type =
     (type \<in> {CURVE_TYPE_LINEAR, CURVE_TYPE_CUBIC_SPLINE, CURVE_TYPE_BEZIER,
               CURVE_TYPE_PARAMETRIC, CURVE_TYPE_AI_OPTIMIZED})"

text \<open>A curve, a 1x1 RGB image and a zeroed output buffer, for the concrete instances.\<close>

definition example_curve :: CurveData where
  "example_curve =
     \<lparr> cd_points = [\<lparr>pt_x = Fin 0, pt_y = Fin 0\<rparr>, \<lparr>pt_x = Fin 1, pt_y = Fin 1\<rparr>],
       cd_type = CURVE_TYPE_LINEAR, cd_channel = CHANNEL_RGB, cd_gamma = Fin 1,
       cd_black_point = Fin 0, cd_white_point = Fin 1, cd_lut_size = 3 \<rparr>"

definition example_image :: ImageData where
  "example_image =
     \<lparr> img_data = [10, 20, 30], img_width = 1, img_height = 1, img_channels = 3,
       img_stride = 3 \<rparr>"

definition blank_image :: ImageData where
  "blank_image =
     \<lparr> img_data = [0, 0, 0], img_width = 1, img_height = 1, img_channels = 3,
       img_stride = 3 \<rparr>"



text \<open>
  \<open>dst\<close> is \<open>dst0\<close> with the \<open>k\<close> bytes from offset \<open>d\<close> replaced by those of \<open>src\<close>
  from offset \<open>s\<close>.
\<close>

definition copied :: "8 word list \<Rightarrow> nat \<Rightarrow> nat \<Rightarrow> nat \<Rightarrow> 8 word list \<Rightarrow> 8 word list \<Rightarrow> bool" where
  "copied src s d k dst0 dst =
     (length dst = length dst0 \<and>
      (\<forall>j < length dst. dst ! j = (if d \<le> j \<and> j < d + k then src ! (s + (j - d)) else dst0 ! j)))"



text \<open>
  Points whose \<open>x\<close> strictly increases, and the real coordinates of a point that holds
  numbers.
\<close>

definition strictly_increasing_x :: "CurvePoint list \<Rightarrow> bool" where
  "strictly_increasing_x points = sorted_wrt (\<lambda>p q. dless (pt_x p) (pt_x q)) points"

definition rx :: "CurvePoint \<Rightarrow> real" where
  "rx p = (case pt_x p of Fin r \<Rightarrow> r | _ \<Rightarrow> 0)"

definition ry :: "CurvePoint \<Rightarrow> real" where
  "ry p = (case pt_y p of Fin r \<Rightarrow> r | _ \<Rightarrow> 0)"

definition three_points :: "CurvePoint list" where
  "three_points =
     [\<lparr>pt_x = Fin 0, pt_y = Fin 0\<rparr>, \<lparr>pt_x = Fin (1 / 2), pt_y = Fin (3 / 4)\<rparr>,
      \<lparr>pt_x = Fin 1, pt_y = Fin 1\<rparr>]"

text \<open>Points and segments all of whose fields are numbers.\<close>

definition finite_point :: "CurvePoint \<Rightarrow> bool" where
  "finite_point p = (is_fin (pt_x p) \<and> is_fin (pt_y p))"

definition finite_segment :: "SplineSegment \<Rightarrow> bool" where
  "finite_segment s =
     (is_fin (seg_a s) \<and> is_fin (seg_b s) \<and> is_fin (seg_c s) \<and> is_fin (seg_d s)
      \<and> is_fin (x_start s) \<and> is_fin (x_end s))"

section \<open>Properties\<close>

text \<open>
  C9. For every point set and every resolution, the table generated for curve type
  AIOptimized is the table generated for curve type CubicSpline from the same points at
  the same resolution.
\<close>

theorem ai_optimized_lut_is_cubic_spline_lut:
  "generateOptimizedLUT points CURVE_TYPE_AI_OPTIMIZED sz =
   generateOptimizedLUT points CURVE_TYPE_CUBIC_SPLINE sz"
  by (simp add: generateOptimizedLUT_def generateAIOptimizedLUT_def curve_type_defs)


subsection \<open>Evaluation\<close>

lemmas dbl_eval = dsub_def dclamp_def signed_inf_def
lemmas spline_eval = calculateSplineSegments_def evaluate_def seg_poly_def spline_b_def
  spline_c.simps spline_d_def spline_h_def spline_z_def spline_mu_def spline_l_def
  spline_alpha_def


text \<open>
  C7. For a parametric curve over at least two points, sample \<open>i\<close> of the table is
  \<open>clamp(lift + (gain - lift) * pow(i / (resolution - 1), gamma), 0, 1)\<close>, where \<open>lift\<close>
  is the first point's \<open>y\<close>, \<open>gain\<close> the last point's \<open>y\<close>, and \<open>gamma\<close> is
  \<open>points[1].y / points[1].x\<close> for more than two points and 1 otherwise. The points
  (0,0), (0.5,0.5), (1,1) give \<open>gamma = 1\<close> and the identity table \<open>i / (resolution - 1)\<close>
  at every resolution from 2 on.
\<close>

theorem parametric_lut_formula:
  "(2 \<le> length points \<and> i < sz \<longrightarrow>
      generateParametricLUT points sz ! i =
        dclamp (dadd (pt_y (points ! 0))
                     (dmul (dsub (pt_y (last points)) (pt_y (points ! 0)))
                           (dpow (ddiv (Fin (real i)) (Fin (real_of_int (int sz - 1))))
                                 (if length points > 2
                                  then ddiv (pt_y (points ! 1)) (pt_x (points ! 1))
                                  else Fin 1))))
               (Fin 0) (Fin 1))
   \<and> parametric_gamma [\<lparr>pt_x = Fin 0, pt_y = Fin 0\<rparr>, \<lparr>pt_x = Fin (1 / 2), pt_y = Fin (1 / 2)\<rparr>,
                        \<lparr>pt_x = Fin 1, pt_y = Fin 1\<rparr>] = Fin 1
   \<and> (2 \<le> sz \<and> i < sz \<longrightarrow>
        generateOptimizedLUT [\<lparr>pt_x = Fin 0, pt_y = Fin 0\<rparr>, \<lparr>pt_x = Fin (1 / 2), pt_y = Fin (1 / 2)\<rparr>,
                              \<lparr>pt_x = Fin 1, pt_y = Fin 1\<rparr>] CURVE_TYPE_PARAMETRIC sz ! i
        = Fin (real i / (real sz - 1)))"
proof (intro conjI impI)
  assume "2 \<le> length points \<and> i < sz"
  then show "generateParametricLUT points sz ! i =
        dclamp (dadd (pt_y (points ! 0))
                     (dmul (dsub (pt_y (last points)) (pt_y (points ! 0)))
                           (dpow (ddiv (Fin (real i)) (Fin (real_of_int (int sz - 1))))
                                 (if length points > 2
                                  then ddiv (pt_y (points ! 1)) (pt_x (points ! 1))
                                  else Fin 1))))
               (Fin 0) (Fin 1)"
    by (auto simp: generateParametricLUT_def parametric_gamma_def parametric_lift_def
        parametric_gain_def sample_x_def Let_def)
next
  show "parametric_gamma [\<lparr>pt_x = Fin 0, pt_y = Fin 0\<rparr>, \<lparr>pt_x = Fin (1 / 2), pt_y = Fin (1 / 2)\<rparr>,
                        \<lparr>pt_x = Fin 1, pt_y = Fin 1\<rparr>] = Fin 1"
    by (simp add: parametric_gamma_def)
next
  assume a: "2 \<le> sz \<and> i < sz"
  then have pos: "0 < real sz - 1" and le: "real i \<le> real sz - 1" by auto
  have sx: "sample_x sz i = Fin (real i / (real sz - 1))"
    using a by (simp add: sample_x_def)
  have rng: "0 \<le> real i / (real sz - 1)" "real i / (real sz - 1) \<le> 1"
    using pos le by auto
  have pw: "dpow (Fin (real i / (real sz - 1))) (Fin 1) = Fin (real i / (real sz - 1))"
    using rng pos by (cases "i = 0") auto
  show "generateOptimizedLUT [\<lparr>pt_x = Fin 0, pt_y = Fin 0\<rparr>, \<lparr>pt_x = Fin (1 / 2), pt_y = Fin (1 / 2)\<rparr>,
                              \<lparr>pt_x = Fin 1, pt_y = Fin 1\<rparr>] CURVE_TYPE_PARAMETRIC sz ! i
        = Fin (real i / (real sz - 1))"
    using a rng
    by (simp add: generateOptimizedLUT_def curve_type_defs generateParametricLUT_def
        parametric_gamma_def parametric_lift_def parametric_gain_def Let_def sx pw dbl_eval)
qed

theorem parametric_lut_formula_witness:
  "generateParametricLUT [\<lparr>pt_x = Fin 0, pt_y = Fin (1 / 4)\<rparr>, \<lparr>pt_x = Fin (1 / 2), pt_y = Fin 1\<rparr>,
                              \<lparr>pt_x = Fin 1, pt_y = Fin (3 / 4)\<rparr>] 3 ! 1 = Fin (3 / 8)
   \<and> generateOptimizedLUT [\<lparr>pt_x = Fin 0, pt_y = Fin 0\<rparr>, \<lparr>pt_x = Fin (1 / 2), pt_y = Fin (1 / 2)\<rparr>,
                              \<lparr>pt_x = Fin 1, pt_y = Fin 1\<rparr>] CURVE_TYPE_PARAMETRIC 3 ! 1 = Fin (1 / 2)"
  using parametric_lut_formula [of "[\<lparr>pt_x = Fin 0, pt_y = Fin (1 / 4)\<rparr>, \<lparr>pt_x = Fin (1 / 2), pt_y = Fin 1\<rparr>,
                              \<lparr>pt_x = Fin 1, pt_y = Fin (3 / 4)\<rparr>]" 1 3]
  by (simp add: dbl_eval power2_eq_square)


text \<open>
  C1. The claim that every sample of a generated table lies in [0,1] fails for the cubic
  spline on points with equal \<open>x\<close>: for (0.5,0), (0.5,1) the segment has \<open>h[0] = 0\<close>,
  \<open>b = 1/0 = inf\<close> and \<open>d = 0/0 = NaN\<close>; the sample at \<open>x = 1\<close> is \<open>a + b * 0 + \<dots> = NaN\<close>,
  which \<open>std::clamp\<close> returns unchanged.
\<close>

theorem cubic_spline_lut_nan_on_equal_x:
  "generateOptimizedLUT [\<lparr>pt_x = Fin (1 / 2), pt_y = Fin 0\<rparr>, \<lparr>pt_x = Fin (1 / 2), pt_y = Fin 1\<rparr>]
     CURVE_TYPE_CUBIC_SPLINE 2 = [Fin 0, NaN]"
  by (simp add: generateOptimizedLUT_def curve_type_defs generateCubicSplineLUT_def
      sample_x_def spline_eval dbl_eval upt_rec)


text \<open>
  C8. The claim that no division of the table generation has a zero divisor fails on
  points with equal \<open>x\<close>: for (0.5,0), (0.5,1) the spline construction divides by
  \<open>h[0] = 0\<close> and by \<open>3.0 * h[0] = 0\<close>, and for (0,0), (0,0.5), (1,1) the parametric path
  divides by \<open>points[1].x = 0\<close>.
\<close>

theorem spline_and_parametric_divide_by_zero:
  "spline_divisors [\<lparr>pt_x = Fin (1 / 2), pt_y = Fin 0\<rparr>, \<lparr>pt_x = Fin (1 / 2), pt_y = Fin 1\<rparr>]
     = [Fin 0, Fin 3, Fin 0]
   \<and> parametric_divisors [\<lparr>pt_x = Fin 0, pt_y = Fin 0\<rparr>, \<lparr>pt_x = Fin 0, pt_y = Fin (1 / 2)\<rparr>,
                          \<lparr>pt_x = Fin 1, pt_y = Fin 1\<rparr>] = [Fin 0]"
  by (simp add: spline_divisors_def parametric_divisors_def spline_eval dbl_eval upt_rec)


subsection \<open>The sorting routine\<close>










subsection \<open>Curve creation\<close>






lemmas api_eval = curve_create_def clamp_point_def tie_reversing_sort_def x_less_def
  DEFAULT_LUT_SIZE_def



text \<open>
  C4 as stated fails: \<open>curve_create\<close> returns \<open>CURVE_SUCCESS\<close> for the type value 5,
  which is none of the enumerated types, and stores it.
\<close>

theorem curve_create_accepts_unknown_type:
  "curve_create tie_reversing_sort \<lparr>g_initialized = True\<rparr>
       (Some [\<lparr>pt_x = Fin 0, pt_y = Fin 0\<rparr>, \<lparr>pt_x = Fin 1, pt_y = Fin 1\<rparr>]) 5 True
   = (CURVE_SUCCESS,
      Some \<lparr> cd_points = [\<lparr>pt_x = Fin 0, pt_y = Fin 0\<rparr>, \<lparr>pt_x = Fin 1, pt_y = Fin 1\<rparr>],
             cd_type = 5, cd_channel = CHANNEL_RGB, cd_gamma = Fin 1, cd_black_point = Fin 0,
             cd_white_point = Fin 1, cd_lut_size = 4096 \<rparr>)"
  by (simp add: api_eval dclamp_def)

text \<open>
  C4 (as amended). \<open>curve_create\<close> does not look at the curve type: in the initialised
  engine, with at least two points and a non-null \<open>out_curve\<close>, it succeeds for every
  type value and stores the value unchanged. For a value outside the enumeration
  \<open>generateOptimizedLUT\<close> selects no interpolator and returns a table of zeros.
\<close>

theorem curve_create_stores_any_type:
  assumes "g_initialized st" "2 \<le> length pts"
  shows "\<exists>c. curve_create sort_impl st (Some pts) type True = (CURVE_SUCCESS, Some c)
           \<and> cd_type c = type
           \<and> (\<not> enumerated_type type \<longrightarrow>
                generateOptimizedLUT (cd_points c) (cd_type c) sz = replicate sz (Fin 0))"
  using assms by (simp add: curve_create_def generateOptimizedLUT_def enumerated_type_def)

theorem curve_create_stores_any_type_witness:
  "\<exists>c. curve_create tie_reversing_sort \<lparr>g_initialized = True\<rparr>
          (Some [\<lparr>pt_x = Fin 0, pt_y = Fin 0\<rparr>, \<lparr>pt_x = Fin 1, pt_y = Fin 1\<rparr>]) 5 True
          = (CURVE_SUCCESS, Some c)
        \<and> cd_type c = 5
        \<and> generateOptimizedLUT (cd_points c) (cd_type c) 3 = [Fin 0, Fin 0, Fin 0]"
  using curve_create_stores_any_type [of "\<lparr>g_initialized = True\<rparr>"
      "[\<lparr>pt_x = Fin 0, pt_y = Fin 0\<rparr>, \<lparr>pt_x = Fin 1, pt_y = Fin 1\<rparr>]" tie_reversing_sort 5 3]
  by (simp add: enumerated_type_def curve_type_defs numeral_3_eq_3)


subsection \<open>Initialisation\<close>

text \<open>
  C10. In the uninitialised engine (before \<open>curve_initialize\<close>, or after
  \<open>curve_cleanup\<close>), \<open>curve_generate_lut\<close> with a curve and non-null output parameters
  returns \<open>CURVE_SUCCESS\<close> and the table, while \<open>curve_create\<close> and
  \<open>curve_apply_to_image\<close>, called with arguments that pass their parameter checks, return
  \<open>CURVE_ERROR_NOT_INITIALIZED\<close>.
\<close>

theorem generate_lut_has_no_initialization_check:
  assumes "st = initial_state \<or> st = curve_cleanup st'" "0 \<le> cd_lut_size c" "2 \<le> length pts"
  shows "curve_generate_lut st (Some c) True True
           = (CURVE_SUCCESS,
              Some (generateOptimizedLUT (cd_points c) (cd_type c) (nat (cd_lut_size c))))
         \<and> curve_create sort_impl st (Some pts) type True = (CURVE_ERROR_NOT_INITIALIZED, None)
         \<and> curve_apply_to_image st (Some c) (Some inp) (Some out) opts
           = Some (CURVE_ERROR_NOT_INITIALIZED, None)"
proof -
  from assms(1) have "\<not> g_initialized st"
    by (auto simp: initial_state_def curve_cleanup_def split: if_splits)
  with assms(2,3) show ?thesis
    by (simp add: curve_generate_lut_def curve_create_def curve_apply_to_image_def)
qed

theorem generate_lut_has_no_initialization_check_witness:
  "curve_generate_lut initial_state (Some example_curve) True True
     = (CURVE_SUCCESS, Some [Fin 0, Fin (1 / 2), Fin 1])
   \<and> curve_create tie_reversing_sort initial_state (Some (cd_points example_curve))
        CURVE_TYPE_LINEAR True = (CURVE_ERROR_NOT_INITIALIZED, None)
   \<and> curve_apply_to_image initial_state (Some example_curve) (Some example_image)
        (Some blank_image) None = Some (CURVE_ERROR_NOT_INITIALIZED, None)"
  using generate_lut_has_no_initialization_check [of initial_state initial_state example_curve
      "cd_points example_curve" tie_reversing_sort CURVE_TYPE_LINEAR example_image blank_image None]
  by (simp add: example_curve_def generateOptimizedLUT_def generateLinearLUT_def
      linearInterpolate_def sample_x_def dsub_def upt_rec)


subsection \<open>Lab channel targets\<close>

text \<open>
  C2. The claim that a Lab target copies the image to the output buffer fails: for a
  1x1 RGB image (10, 20, 30) and an output buffer holding (0, 0, 0), the output buffer
  still holds (0, 0, 0) after the call.
\<close>

theorem lab_target_leaves_output_unwritten:
  "applyLUTCPU [Fin 0, Fin 1] example_image blank_image CHANNEL_LAB_L = Some [0, 0, 0]
   \<and> img_data example_image = [10, 20, 30]"
  by (simp add: applyLUTCPU_def apply_pixel_def getChannelIndex_def example_image_def
      blank_image_def)


text \<open>
  For a Lab target \<open>getChannelIndex\<close> is -1, the guard \<open>channel_index >= 0\<close> fails and
  no colour sample is written: with other than four channels the output buffer keeps
  the content it had.
\<close>

lemma for_each_unchanged: "(\<And>i s. body i s = Some s) \<Longrightarrow> for_each is body s = Some s"
  by (induction "is") auto

lemma lab_target_writes_nothing:
  assumes "channel \<in> {CHANNEL_LAB_L, CHANNEL_LAB_A, CHANNEL_LAB_B}" "img_channels input \<noteq> 4"
  shows "applyLUTCPU lut input output channel = Some (img_data output)"
proof -
  have "apply_pixel lut channel (img_channels input) src sr dr x dst = Some dst" for src sr dr x dst
    using assms by (auto simp: apply_pixel_def getChannelIndex_def)
  then show ?thesis
    by (simp add: applyLUTCPU_def for_each_unchanged)
qed



subsection \<open>The identity table\<close>



lemma dsub_Fin: "dsub (Fin a) (Fin b) = Fin (a - b)"
  by (simp add: dsub_def)










lemma copied_one:
  "d < length dst \<Longrightarrow> copied src s d 1 dst (dst[d := src ! s])"
  by (auto simp: copied_def nth_list_update)










subsection \<open>The natural cubic spline on strictly increasing points\<close>

text \<open>
  When the \<open>x\<close> of the points strictly increases, every segment width \<open>h[i]\<close> is
  positive, every pivot \<open>l[i]\<close> of the sweep exceeds \<open>h[i]\<close> (so \<open>0 \<le> mu[i] < 1\<close>), and
  all coefficients of the segments are finite.
\<close>

lemma ddiv_Fin: "b \<noteq> 0 \<Longrightarrow> ddiv (Fin a) (Fin b) = Fin (a / b)"
  by simp

lemma valid_point_Fin:
  assumes "valid_point p"
  shows "pt_x p = Fin (rx p)" "pt_y p = Fin (ry p)"
    "0 \<le> rx p" "rx p \<le> 1" "0 \<le> ry p" "ry p \<le> 1"
  using assms by (auto simp: valid_point_def in_unit_def rx_def ry_def split: dbl.splits)

lemma valid_points_nth:
  "valid_points ps \<Longrightarrow> i < length ps \<Longrightarrow> valid_point (ps ! i)"
  by (simp add: valid_points_def list_all_length)

lemma increasing_nth:
  assumes "valid_points ps" "strictly_increasing_x ps" "i < j" "j < length ps"
  shows "rx (ps ! i) < rx (ps ! j)"
proof -
  have "dless (pt_x (ps ! i)) (pt_x (ps ! j))"
    using assms(2,3,4) by (simp add: strictly_increasing_x_def sorted_wrt_iff_nth_less)
  moreover have "valid_point (ps ! i)" "valid_point (ps ! j)"
    using assms by (auto intro: valid_points_nth)
  ultimately show ?thesis by (simp add: valid_point_Fin)
qed

lemma spline_h_Fin:
  assumes "valid_points ps" "strictly_increasing_x ps" "Suc i < length ps"
  shows "spline_h ps i = Fin (rx (ps ! Suc i) - rx (ps ! i))"
    and "0 < rx (ps ! Suc i) - rx (ps ! i)"
proof -
  have v: "valid_point (ps ! i)" "valid_point (ps ! Suc i)"
    using assms by (auto intro: valid_points_nth)
  show "spline_h ps i = Fin (rx (ps ! Suc i) - rx (ps ! i))"
    by (simp add: spline_h_def valid_point_Fin [OF v(1)] valid_point_Fin [OF v(2)] dsub_Fin)
  show "0 < rx (ps ! Suc i) - rx (ps ! i)"
    using increasing_nth [OF assms(1,2), of i "Suc i"] assms(3) by simp
qed

lemma spline_alpha_Fin:
  assumes "valid_points ps" "strictly_increasing_x ps" "Suc (Suc k) < length ps"
  shows "is_fin (spline_alpha ps (Suc k))"
proof -
  have v: "valid_point (ps ! k)" "valid_point (ps ! Suc k)" "valid_point (ps ! Suc (Suc k))"
    using assms by (auto intro: valid_points_nth)
  have k: "Suc k < length ps" using assms(3) by simp
  note h0 = spline_h_Fin [OF assms(1,2) k]
  note h1 = spline_h_Fin [OF assms(1,2,3)]
  show ?thesis
    using h0(2) h1(2)
    by (simp add: spline_alpha_def h0(1) h1(1) valid_point_Fin [OF v(1)] valid_point_Fin [OF v(2)]
        valid_point_Fin [OF v(3)] dsub_Fin is_fin_def)
qed

lemma spline_lmz_Fin:
  assumes "valid_points ps" "strictly_increasing_x ps"
  shows "Suc i < length ps \<Longrightarrow>
    \<exists>l m z. spline_lmz ps i = (Fin l, Fin m, Fin z) \<and> 0 < l \<and> 0 \<le> m \<and> m < 1"
proof (induction i)
  case 0
  show ?case by simp
next
  case (Suc k)
  then obtain l' m' z' where prev: "spline_lmz ps k = (Fin l', Fin m', Fin z')"
    "0 \<le> m'" "m' < 1" by auto
  have v: "valid_point (ps ! k)" "valid_point (ps ! Suc (Suc k))"
    using Suc.prems assms(1) by (auto intro: valid_points_nth)
  have k: "Suc k < length ps" using Suc.prems by simp
  define h0 where "h0 = rx (ps ! Suc k) - rx (ps ! k)"
  define h1 where "h1 = rx (ps ! Suc (Suc k)) - rx (ps ! Suc k)"
  have h0: "spline_h ps k = Fin h0" "0 < h0"
    using spline_h_Fin [OF assms k] by (simp_all add: h0_def)
  have h1: "spline_h ps (Suc k) = Fin h1" "0 < h1"
    using spline_h_Fin [OF assms Suc.prems] by (simp_all add: h1_def)
  obtain al where al: "spline_alpha ps (Suc k) = Fin al"
    using spline_alpha_Fin [OF assms Suc.prems]
    by (auto simp: is_fin_def split: dbl.splits)
  define l where "l = 2 * (rx (ps ! Suc (Suc k)) - rx (ps ! k)) - h0 * m'"
  have hm: "h0 * m' \<le> h0" using mult_left_mono [of m' 1 h0] h0(2) prev(3) by simp
  have eq: "rx (ps ! Suc (Suc k)) - rx (ps ! k) = h0 + h1" by (simp add: h0_def h1_def)
  have "2 * (h0 + h1) - h0 * m' = h1 + (h0 + h1) + (h0 - h0 * m')" by (simp add: algebra_simps)
  then have lb: "h1 < l" unfolding l_def eq using hm h0(2) h1(2) by linarith
  then have lpos: "0 < l" using h1(2) by simp
  have "spline_lmz ps (Suc k) = (Fin l, Fin (h1 / l), Fin ((al - h0 * z') / l))"
    using lpos
    by (simp add: prev(1) Let_def h0(1) h1(1) al valid_point_Fin [OF v(1)]
        valid_point_Fin [OF v(2)] dsub_Fin l_def)
  moreover have "0 \<le> h1 / l" "h1 / l < 1" using lpos lb h1(2) by simp_all
  ultimately show ?case using lpos by blast
qed


lemma is_finE: "is_fin v \<Longrightarrow> (\<And>r. v = Fin r \<Longrightarrow> P) \<Longrightarrow> P"
  by (cases v) (auto simp: is_fin_def)

lemma is_fin_Fin: "is_fin (Fin r)"
  by (simp add: is_fin_def)

lemma spline_c_Fin:
  assumes "valid_points ps" "strictly_increasing_x ps"
  shows "is_fin (spline_c ps j)"
proof (induction "length ps - j" arbitrary: j)
  case 0
  then have "length ps \<le> j + 1" by simp
  then show ?case by (subst spline_c.simps) (simp add: is_fin_Fin)
next
  case (Suc d)
  show ?case
  proof (cases "length ps \<le> j + 1")
    case True
    then show ?thesis by (subst spline_c.simps) (simp add: is_fin_Fin)
  next
    case False
    then have j: "Suc j < length ps" by simp
    from spline_lmz_Fin [OF assms j] obtain l m z where
      "spline_lmz ps j = (Fin l, Fin m, Fin z)" by blast
    then have mz: "spline_mu ps j = Fin m" "spline_z ps j = Fin z"
      by (simp_all add: spline_mu_def spline_z_def)
    have "is_fin (spline_c ps (Suc j))"
      using Suc.hyps(1) [of "Suc j"] Suc.hyps(2) by simp
    then obtain c where c: "spline_c ps (Suc j) = Fin c" by (rule is_finE)
    show ?thesis
      using False by (subst spline_c.simps) (simp add: mz c dsub_Fin is_fin_Fin)
  qed
qed

lemma spline_coefficients_Fin:
  assumes "valid_points ps" "strictly_increasing_x ps" "Suc j < length ps"
  shows "is_fin (spline_b ps j)" "is_fin (spline_d ps j)"
proof -
  have v: "valid_point (ps ! j)" "valid_point (ps ! Suc j)"
    using assms by (auto intro: valid_points_nth)
  note h = spline_h_Fin [OF assms]
  obtain c0 c1 where c: "spline_c ps j = Fin c0" "spline_c ps (Suc j) = Fin c1"
    using spline_c_Fin [OF assms(1,2), of j] spline_c_Fin [OF assms(1,2), of "Suc j"]
    by (auto elim!: is_finE)
  show "is_fin (spline_b ps j)"
    using h(2)
    by (simp add: spline_b_def h(1) c valid_point_Fin [OF v(1)] valid_point_Fin [OF v(2)]
        dsub_Fin is_fin_Fin)
  show "is_fin (spline_d ps j)"
    using h(2) by (simp add: spline_d_def h(1) c dsub_Fin is_fin_Fin)
qed

lemma seg_poly_zero:
  assumes "is_fin (seg_b s)" "is_fin (seg_c s)" "is_fin (seg_d s)"
  shows "seg_poly s (Fin 0) = seg_a s"
proof -
  from assms obtain b c d where "seg_b s = Fin b" "seg_c s = Fin c" "seg_d s = Fin d"
    by (auto elim!: is_finE)
  then show ?thesis by (cases "seg_a s") (simp_all add: seg_poly_def)
qed


lemma sample_x_first: "2 \<le> sz \<Longrightarrow> sample_x sz 0 = Fin 0"
  by (simp add: sample_x_def)

lemma sample_x_last: "2 \<le> sz \<Longrightarrow> sample_x sz (sz - 1) = Fin 1"
  by (simp add: sample_x_def of_nat_diff)

text \<open>
  C6 as stated fails below the first breakpoint: the source returns the constant term
  \<open>a\<close> of the first segment without evaluating the cubic. For the points (0.5,0), (0.5,1)
  the first segment has \<open>b = inf\<close> and \<open>d = NaN\<close>: evaluation at \<open>x = 0\<close> returns
  \<open>a = 0\<close>, while the cubic \<open>a + b * dx + c * dx * dx + d * dx * dx * dx\<close> at \<open>dx = 0\<close> is
  NaN.
\<close>

theorem spline_below_first_breakpoint_is_not_the_cubic:
  "calculateSplineSegments [\<lparr>pt_x = Fin (1 / 2), pt_y = Fin 0\<rparr>, \<lparr>pt_x = Fin (1 / 2), pt_y = Fin 1\<rparr>]
     = [\<lparr>seg_a = Fin 0, seg_b = PInf, seg_c = Fin 0, seg_d = NaN,
         x_start = Fin (1 / 2), x_end = Fin (1 / 2)\<rparr>]
   \<and> evaluate (calculateSplineSegments
        [\<lparr>pt_x = Fin (1 / 2), pt_y = Fin 0\<rparr>, \<lparr>pt_x = Fin (1 / 2), pt_y = Fin 1\<rparr>]) (Fin 0) = Fin 0
   \<and> dadd (dadd (dadd (Fin 0) (dmul PInf (Fin 0))) (dmul (dmul (Fin 0) (Fin 0)) (Fin 0)))
           (dmul (dmul (dmul NaN (Fin 0)) (Fin 0)) (Fin 0)) = NaN"
  by (simp add: spline_eval dbl_eval upt_rec)

text \<open>
  C6 (as amended). For the segments built from at least two points, evaluation at or
  below the first breakpoint returns the constant term \<open>a\<close> of the first segment, which
  is the first point's \<open>y\<close>; it is the value of the first cubic at \<open>dx = 0\<close> whenever the
  coefficients \<open>b\<close>, \<open>c\<close>, \<open>d\<close> of that segment are finite. Evaluation above the first
  and at or above the last breakpoint returns
  \<open>a + b * dx + c * dx * dx + d * dx * dx * dx\<close> of the last segment at
  \<open>dx = x_end - x_start\<close>. For valid points the first sample of the table is the first
  point's \<open>y\<close>, and when the first point's \<open>x\<close> is below 1 the last sample is the clamped
  value of the last cubic at \<open>dx = x_end - x_start\<close>.
\<close>

theorem spline_evaluate_outside_breakpoints:
  assumes "2 \<le> length points"
  shows "let segments = calculateSplineSegments points;
             first = hd segments;
             final = last segments;
             width = dsub (x_end final) (x_start final)
         in seg_a first = pt_y (points ! 0)
          \<and> x_start first = pt_x (points ! 0)
          \<and> x_end final = pt_x (points ! (length points - 1))
          \<and> (dle x (x_start first) \<longrightarrow> evaluate segments x = seg_a first)
          \<and> (\<not> dle x (x_start first) \<and> dle (x_end final) x \<longrightarrow>
               evaluate segments x
                 = dadd (dadd (dadd (seg_a final) (dmul (seg_b final) width))
                              (dmul (dmul (seg_c final) width) width))
                        (dmul (dmul (dmul (seg_d final) width) width) width))
          \<and> (is_fin (seg_b first) \<and> is_fin (seg_c first) \<and> is_fin (seg_d first) \<longrightarrow>
               dadd (dadd (dadd (seg_a first) (dmul (seg_b first) (Fin 0)))
                          (dmul (dmul (seg_c first) (Fin 0)) (Fin 0)))
                    (dmul (dmul (dmul (seg_d first) (Fin 0)) (Fin 0)) (Fin 0))
                 = seg_a first)
          \<and> (valid_points points \<and> 2 \<le> sz \<longrightarrow>
               generateCubicSplineLUT points sz ! 0 = pt_y (points ! 0)
             \<and> (\<not> dle (Fin 1) (pt_x (points ! 0)) \<longrightarrow>
                  generateCubicSplineLUT points sz ! (sz - 1)
                    = dclamp (dadd (dadd (dadd (seg_a final) (dmul (seg_b final) width))
                                         (dmul (dmul (seg_c final) width) width))
                                   (dmul (dmul (dmul (seg_d final) width) width) width))
                        (Fin 0) (Fin 1)))"
proof -
  define n where "n = length points"
  define segments where "segments = calculateSplineSegments points"
  define first where "first = hd segments"
  define final where "final = last segments"
  define width where "width = dsub (x_end final) (x_start final)"
  define cubic where "cubic = (\<lambda>(s::SplineSegment) w.
      dadd (dadd (dadd (seg_a s) (dmul (seg_b s) w)) (dmul (dmul (seg_c s) w) w))
           (dmul (dmul (dmul (seg_d s) w) w) w))"
  have n2: "2 \<le> n" using assms by (simp add: n_def)
  let ?f = "\<lambda>i. \<lparr> seg_a = pt_y (points ! i), seg_b = spline_b points i,
                  seg_c = spline_c points i, seg_d = spline_d points i,
                  x_start = pt_x (points ! i), x_end = pt_x (points ! (i + 1)) \<rparr>"
  have segs: "segments = map ?f [0 ..< n - 1]"
    using n2 by (simp add: segments_def calculateSplineSegments_def n_def)
  have ne: "segments \<noteq> []" using n2 by (simp add: segs)
  have first_eq: "first = ?f 0"
    using n2 by (simp add: first_def segs hd_map hd_upt)
  have final_eq: "final = ?f (n - 2)"
  proof -
    have "[0 ..< n - 1] \<noteq> []" using n2 by simp
    moreover have "last [0 ..< n - 1] = n - 2" using n2 by (simp add: last_upt)
    ultimately show ?thesis by (simp add: final_def segs last_map)
  qed
  have a0: "seg_a first = pt_y (points ! 0)" and x0: "x_start first = pt_x (points ! 0)"
    by (simp_all add: first_eq)
  have "n - 2 + 1 = n - 1" using n2 by simp
  then have xn: "x_end final = pt_x (points ! (n - 1))" by (simp add: final_eq)
  have lower: "evaluate segments x = seg_a first" if "dle x (x_start first)" for x
    using that ne by (simp add: evaluate_def first_def [symmetric])
  have upper: "evaluate segments x = cubic final width"
    if "\<not> dle x (x_start first)" "dle (x_end final) x" for x
    using that ne
    by (simp add: evaluate_def first_def [symmetric] final_def [symmetric] width_def
        seg_poly_def cubic_def)
  have zero: "cubic first (Fin 0) = seg_a first"
    if "is_fin (seg_b first) \<and> is_fin (seg_c first) \<and> is_fin (seg_d first)"
  proof -
    from that obtain b c d where "seg_b first = Fin b" "seg_c first = Fin c" "seg_d first = Fin d"
      by (auto elim!: is_finE)
    then show ?thesis by (cases "seg_a first") (simp_all add: cubic_def)
  qed
  have lut: "generateCubicSplineLUT points sz ! i
      = dclamp (evaluate segments (sample_x sz i)) (Fin 0) (Fin 1)" if "i < sz" for i
    using that by (simp add: generateCubicSplineLUT_def segments_def Let_def)
  have ends: "generateCubicSplineLUT points sz ! 0 = pt_y (points ! 0)
      \<and> (\<not> dle (Fin 1) (pt_x (points ! 0)) \<longrightarrow>
           generateCubicSplineLUT points sz ! (sz - 1)
             = dclamp (cubic final width) (Fin 0) (Fin 1))"
    if vp: "valid_points points" and sz: "2 \<le> sz"
  proof
    have v0: "valid_point (points ! 0)" and vn: "valid_point (points ! (n - 1))"
      using vp n2 by (auto intro!: valid_points_nth simp: n_def)
    have "dle (sample_x sz 0) (x_start first)"
      using valid_point_Fin(1,3) [OF v0] unfolding sample_x_first [OF sz] x0 by simp
    from lower [OF this] have "generateCubicSplineLUT points sz ! 0
        = dclamp (pt_y (points ! 0)) (Fin 0) (Fin 1)"
      using sz by (simp add: lut a0)
    also have "\<dots> = pt_y (points ! 0)"
      using valid_point_Fin(2,5,6) [OF v0] by (simp add: dclamp_def)
    finally show "generateCubicSplineLUT points sz ! 0 = pt_y (points ! 0)" .
    show "\<not> dle (Fin 1) (pt_x (points ! 0)) \<longrightarrow>
        generateCubicSplineLUT points sz ! (sz - 1) = dclamp (cubic final width) (Fin 0) (Fin 1)"
    proof
      assume "\<not> dle (Fin 1) (pt_x (points ! 0))"
      then have a: "\<not> dle (sample_x sz (sz - 1)) (x_start first)"
        unfolding sample_x_last [OF sz] x0 by simp
      have e: "dle (x_end final) (sample_x sz (sz - 1))"
        using valid_point_Fin(1,4) [OF vn] unfolding sample_x_last [OF sz] xn by simp
      from upper [OF a e] show "generateCubicSplineLUT points sz ! (sz - 1)
          = dclamp (cubic final width) (Fin 0) (Fin 1)"
        using sz by (simp add: lut)
    qed
  qed
  show ?thesis
    unfolding Let_def segments_def [symmetric] first_def [symmetric] final_def [symmetric]
      width_def [symmetric] n_def [symmetric]
    using a0 x0 xn lower upper zero ends unfolding cubic_def by blast
qed

theorem spline_evaluate_outside_breakpoints_witness:
  "valid_points three_points
   \<and> evaluate (calculateSplineSegments three_points) (Fin (- 1)) = Fin 0
   \<and> evaluate (calculateSplineSegments three_points) (Fin 2) = Fin 1
   \<and> generateCubicSplineLUT three_points 5 ! 0 = Fin 0
   \<and> generateCubicSplineLUT three_points 5 ! 4 = Fin 1"
proof -
  have v: "valid_points three_points"
    by (simp add: three_points_def valid_points_def valid_point_def in_unit_def)
  have l: "2 \<le> length three_points" by (simp add: three_points_def)
  have s: "calculateSplineSegments three_points =
      [\<lparr>seg_a = Fin 0, seg_b = Fin (7 / 4), seg_c = Fin 0, seg_d = Fin (- 1),
        x_start = Fin 0, x_end = Fin (1 / 2)\<rparr>,
       \<lparr>seg_a = Fin (3 / 4), seg_b = Fin 1, seg_c = Fin (- 3 / 2), seg_d = Fin 1,
        x_start = Fin (1 / 2), x_end = Fin 1\<rparr>]"
    by (simp add: three_points_def calculateSplineSegments_def spline_b_def spline_c.simps
        spline_d_def spline_h_def spline_z_def spline_mu_def spline_alpha_def dsub_def upt_rec)
  have p: "pt_x (three_points ! 0) = Fin 0" "pt_y (three_points ! 0) = Fin 0"
    "pt_x (three_points ! (length three_points - Suc 0)) = Fin 1"
    by (simp_all add: three_points_def)
  show ?thesis
    using v spline_evaluate_outside_breakpoints [OF l, of "Fin (- 1)" 5]
      spline_evaluate_outside_breakpoints [OF l, of "Fin 2" 5]
    by (simp add: Let_def s p dsub_Fin dclamp_def)
qed


subsection \<open>Tables in [0,1]\<close>

text \<open>
  The linear path needs no clamp: the scan only interpolates on an interval with
  \<open>points[i].x < x <= points[i + 1].x\<close>, so the divisor is positive and the result a
  convex combination of two \<open>y\<close> values. This holds with equal \<open>x\<close> values too.
\<close>

lemma in_unit_Fin: "in_unit (Fin r) = (0 \<le> r \<and> r \<le> 1)"
  by (simp add: in_unit_def)

lemma dclamp_in_unit: "v \<noteq> NaN \<Longrightarrow> in_unit (dclamp v (Fin 0) (Fin 1))"
  by (cases v) (auto simp: dclamp_def in_unit_def)

lemma sample_x_Fin:
  assumes "2 \<le> sz" "i < sz"
  shows "\<exists>r. sample_x sz i = Fin r \<and> 0 \<le> r \<and> r \<le> 1"
proof -
  have "0 < real sz - 1" "real i \<le> real sz - 1" using assms by auto
  then show ?thesis by (simp add: sample_x_def)
qed

lemma convex_in_unit:
  fixes a b t :: real
  assumes "0 \<le> a" "a \<le> 1" "0 \<le> b" "b \<le> 1" "0 \<le> t" "t \<le> 1"
  shows "0 \<le> a + t * (b - a)" "a + t * (b - a) \<le> 1"
proof -
  have e: "a + t * (b - a) = (1 - t) * a + t * b" by (simp add: algebra_simps)
  have "0 \<le> (1 - t) * a" "0 \<le> t * b" using assms by simp_all
  then show "0 \<le> a + t * (b - a)" unfolding e by linarith
  have "(1 - t) * a \<le> 1 - t" "t * b \<le> t"
    using assms by (simp_all add: mult_left_le)
  then show "a + t * (b - a) \<le> 1" unfolding e by linarith
qed

lemma linear_scan_in_unit:
  assumes "valid_points (p # rest)" "rx p < r" "linear_scan (p # rest) (Fin r) = Some v"
  shows "in_unit v"
  using assms
proof (induction rest arbitrary: p)
  case Nil
  then show ?case by simp
next
  case (Cons q rest)
  have vp: "valid_point p" and vq: "valid_point q" and vr: "valid_points (q # rest)"
    using Cons.prems(1) by (simp_all add: valid_points_def)
  note fp = valid_point_Fin [OF vp] and fq = valid_point_Fin [OF vq]
  show ?case
  proof (cases "r \<le> rx q")
    case True
    define t where "t = (r - rx p) / (rx q - rx p)"
    have w: "0 < rx q - rx p" using True Cons.prems(2) by simp
    have t: "0 \<le> t" "t \<le> 1" using True Cons.prems(2) w by (simp_all add: t_def)
    have "v = Fin (ry p + t * (ry q - ry p))"
      using Cons.prems(2,3) True w by (simp add: fp fq dsub_Fin t_def Let_def)
    then show ?thesis
      using convex_in_unit [OF fp(5,6) fq(5,6) t] by (simp add: in_unit_Fin)
  next
    case False
    then have "linear_scan (q # rest) (Fin r) = Some v"
      using Cons.prems(3) by (simp add: fp fq)
    moreover have "rx q < r" using False by simp
    ultimately show ?thesis using Cons.IH [OF vr] by blast
  qed
qed

lemma linearInterpolate_in_unit:
  assumes "valid_points ps" "0 \<le> r" "r \<le> 1"
  shows "in_unit (linearInterpolate ps (Fin r))"
proof (cases "ps = []")
  case True
  then show ?thesis using assms by (simp add: linearInterpolate_def in_unit_Fin)
next
  case False
  then obtain p rest where ps: "ps = p # rest" by (cases ps) auto
  have nth0: "ps ! 0 = p" by (simp add: ps)
  have vp: "valid_point p" using assms(1) ps by (simp add: valid_points_def)
  have vl: "valid_point (last ps)"
    using assms(1) False by (simp add: valid_points_def list_all_iff)
  note fp = valid_point_Fin [OF vp] and fl = valid_point_Fin [OF vl]
  have y0: "in_unit (pt_y p)" and yl: "in_unit (pt_y (last ps))"
    using fp fl by (simp_all add: in_unit_Fin)
  show ?thesis
  proof (cases "length ps = 1 \<or> r \<le> rx p \<or> rx (last ps) \<le> r")
    case True
    then show ?thesis
      using y0 yl False by (auto simp: linearInterpolate_def nth0 fp(1) fl(1))
  next
    case other: False
    then have lt: "rx p < r" by simp
    have "in_unit (case linear_scan ps (Fin r) of Some v \<Rightarrow> v | None \<Rightarrow> Fin r)"
    proof (cases "linear_scan ps (Fin r)")
      case None
      then show ?thesis using assms(2,3) by (simp add: in_unit_Fin)
    next
      case (Some v)
      then show ?thesis using linear_scan_in_unit [of p rest r v] assms(1) lt ps by simp
    qed
    then show ?thesis
      using other False by (simp add: linearInterpolate_def nth0 fp(1) fl(1))
  qed
qed

lemma generateLinearLUT_in_unit:
  assumes "valid_points ps" "2 \<le> sz" "i < sz"
  shows "in_unit (generateLinearLUT ps sz ! i)"
proof -
  from sample_x_Fin [OF assms(2,3)] obtain r where "sample_x sz i = Fin r" "0 \<le> r" "r \<le> 1"
    by blast
  then show ?thesis
    using assms(3) linearInterpolate_in_unit [OF assms(1), of r]
    by (simp add: generateLinearLUT_def)
qed


text \<open>
  The other paths clamp, and a clamped sample is in [0,1] unless it is NaN. For valid
  points with strictly increasing \<open>x\<close> no sample is NaN, so the statements of C1 and C8
  hold on such points.
\<close>

lemma is_fin_not_NaN: "is_fin v \<Longrightarrow> v \<noteq> NaN"
  by (auto simp: is_fin_def)

lemma is_fin_ops:
  assumes "is_fin u" "is_fin v"
  shows "is_fin (dadd u v)" "is_fin (dsub u v)" "is_fin (dmul u v)"
  using assms by (auto elim!: is_finE simp: dsub_Fin is_fin_Fin)

lemma valid_point_finite: "valid_point p \<Longrightarrow> finite_point p"
  by (simp add: finite_point_def valid_point_Fin is_fin_Fin)

lemma lerp_point_finite:
  "finite_point p \<Longrightarrow> finite_point q \<Longrightarrow> finite_point (lerp_point (Fin t) p q)"
  by (simp add: finite_point_def lerp_point_def is_fin_ops is_fin_Fin)

lemma bezier_pass_finite:
  "list_all finite_point ps \<Longrightarrow> list_all finite_point (bezier_pass (Fin t) ps)"
  by (induction "Fin t" ps rule: bezier_pass.induct) (simp_all add: lerp_point_finite)

lemma de_casteljau_finite:
  "ps \<noteq> [] \<Longrightarrow> list_all finite_point ps \<Longrightarrow>
   de_casteljau (Fin t) ps \<noteq> [] \<and> list_all finite_point (de_casteljau (Fin t) ps)"
proof (induction "length ps" arbitrary: ps rule: less_induct)
  case less
  show ?case
  proof (cases "length ps \<le> 1")
    case True
    then show ?thesis using less.prems by (subst (1 2) de_casteljau.simps) simp
  next
    case False
    let ?qs = "bezier_pass (Fin t) ps"
    have len: "length ?qs = length ps - 1" by (rule length_bezier_pass)
    then have "length ?qs < length ps" "?qs \<noteq> []" using False by auto
    moreover have "list_all finite_point ?qs" using less.prems(2) by (rule bezier_pass_finite)
    ultimately have "de_casteljau (Fin t) ?qs \<noteq> [] \<and> list_all finite_point (de_casteljau (Fin t) ?qs)"
      using less.hyps by blast
    then show ?thesis using False by (subst (1 2) de_casteljau.simps) simp
  qed
qed

lemma evaluateBezier_in_unit:
  assumes "valid_points ps" "ps \<noteq> []"
  shows "in_unit (evaluateBezier ps (Fin t))"
proof -
  have "list_all finite_point ps"
    using assms(1) by (auto simp: valid_points_def list_all_iff valid_point_finite)
  from de_casteljau_finite [OF assms(2) this, of t]
  have "finite_point (hd (de_casteljau (Fin t) ps))"
    by (cases "de_casteljau (Fin t) ps") auto
  then have "pt_y (hd (de_casteljau (Fin t) ps)) \<noteq> NaN"
    by (simp add: finite_point_def is_fin_not_NaN)
  then show ?thesis using assms(2) by (simp add: evaluateBezier_def dclamp_in_unit)
qed

lemma seg_poly_finite: "finite_segment s \<Longrightarrow> is_fin (seg_poly s (Fin dx))"
  by (simp add: finite_segment_def seg_poly_def is_fin_ops is_fin_Fin)

lemma evaluate_finite:
  assumes "segments \<noteq> []" "list_all finite_segment segments"
  shows "is_fin (evaluate segments (Fin r))"
proof -
  have fh: "finite_segment (hd segments)" and fl: "finite_segment (last segments)"
    using assms by (auto simp: list_all_iff)
  obtain w where w: "dsub (x_end (last segments)) (x_start (last segments)) = Fin w"
    using fl by (auto simp: finite_segment_def elim!: is_finE simp: dsub_Fin)
  obtain w' where w': "dsub (Fin r) (x_start (last segments)) = Fin w'"
    using fl by (auto simp: finite_segment_def elim!: is_finE simp: dsub_Fin)
  have found: "is_fin (seg_poly segment (dsub (Fin r) (x_start segment)))"
    if "find (\<lambda>seg. \<not> dless (x_end seg) (Fin r)) segments = Some segment" for segment
  proof -
    from that have "segment \<in> set segments" by (auto simp: find_Some_iff)
    then have f: "finite_segment segment" using assms(2) by (simp add: list_all_iff)
    then obtain s where "x_start segment = Fin s"
      by (auto simp: finite_segment_def elim!: is_finE)
    then show ?thesis using seg_poly_finite [OF f] by (simp add: dsub_Fin)
  qed
  show ?thesis
    using assms(1) fh seg_poly_finite [OF fl] found
    by (auto simp: evaluate_def w w' finite_segment_def split: option.splits)
qed

lemma segments_finite:
  assumes "valid_points ps" "strictly_increasing_x ps"
  shows "list_all finite_segment (calculateSplineSegments ps)"
proof -
  have "finite_segment \<lparr> seg_a = pt_y (ps ! i), seg_b = spline_b ps i, seg_c = spline_c ps i,
      seg_d = spline_d ps i, x_start = pt_x (ps ! i), x_end = pt_x (ps ! (i + 1)) \<rparr>"
    if "Suc i < length ps" for i
  proof -
    have v: "valid_point (ps ! i)" "valid_point (ps ! Suc i)"
      using assms(1) that by (auto intro: valid_points_nth)
    show ?thesis
      using spline_coefficients_Fin [OF assms that] spline_c_Fin [OF assms, of i]
      by (simp add: finite_segment_def valid_point_Fin [OF v(1)] valid_point_Fin [OF v(2)]
          is_fin_Fin)
  qed
  then show ?thesis
    by (auto simp: calculateSplineSegments_def list_all_iff)
qed

lemma generateCubicSplineLUT_in_unit:
  assumes "valid_points ps" "strictly_increasing_x ps" "2 \<le> length ps" "2 \<le> sz" "i < sz"
  shows "in_unit (generateCubicSplineLUT ps sz ! i)"
proof -
  from sample_x_Fin [OF assms(4,5)] obtain r where r: "sample_x sz i = Fin r" by blast
  have "calculateSplineSegments ps \<noteq> []"
    using assms(3) by (simp add: calculateSplineSegments_def)
  then have "is_fin (evaluate (calculateSplineSegments ps) (Fin r))"
    using segments_finite [OF assms(1,2)] by (rule evaluate_finite)
  then show ?thesis
    using assms(5) by (simp add: generateCubicSplineLUT_def Let_def r dclamp_in_unit is_fin_not_NaN)
qed

lemma dpow_finite: "0 \<le> r \<Longrightarrow> 0 \<le> g \<Longrightarrow> is_fin (dpow (Fin r) (Fin g))"
  by (auto simp: is_fin_Fin)

lemma parametric_gamma_finite:
  assumes "valid_points ps" "strictly_increasing_x ps"
  shows "\<exists>g. parametric_gamma ps = Fin g \<and> 0 \<le> g"
proof (cases "2 < length ps")
  case True
  then have v: "valid_point (ps ! 0)" "valid_point (ps ! Suc 0)"
    using assms(1) by (auto intro: valid_points_nth)
  have "rx (ps ! 0) < rx (ps ! Suc 0)" using increasing_nth [OF assms, of 0 "Suc 0"] True by simp
  then have "0 < rx (ps ! Suc 0)" using valid_point_Fin(3) [OF v(1)] by simp
  then show ?thesis
    using True valid_point_Fin(5) [OF v(2)]
    by (simp add: parametric_gamma_def valid_point_Fin(1,2) [OF v(2)])
next
  case False
  then show ?thesis by (simp add: parametric_gamma_def)
qed

lemma generateParametricLUT_in_unit:
  assumes "valid_points ps" "strictly_increasing_x ps" "2 \<le> length ps" "2 \<le> sz" "i < sz"
  shows "in_unit (generateParametricLUT ps sz ! i)"
proof -
  from sample_x_Fin [OF assms(4,5)] obtain r where r: "sample_x sz i = Fin r" "0 \<le> r" by blast
  from parametric_gamma_finite [OF assms(1,2)] obtain g where
    g: "parametric_gamma ps = Fin g" "0 \<le> g" by blast
  have ne: "ps \<noteq> []" using assms(3) by auto
  have v: "valid_point (ps ! 0)" "valid_point (last ps)"
    using assms(1,3) ne by (auto simp: valid_points_def list_all_iff)
  have lift: "is_fin (parametric_lift ps)"
    using ne by (simp add: parametric_lift_def valid_point_Fin(2) [OF v(1)] is_fin_Fin)
  have gain: "is_fin (parametric_gain ps)"
    using assms(3) by (simp add: parametric_gain_def valid_point_Fin(2) [OF v(2)] is_fin_Fin)
  have "is_fin (dadd (parametric_lift ps)
      (dmul (dsub (parametric_gain ps) (parametric_lift ps)) (dpow (Fin r) (Fin g))))"
    using lift gain dpow_finite [OF r(2) g(2)] by (intro is_fin_ops)
  then show ?thesis
    using assms(5) by (simp add: generateParametricLUT_def Let_def r g dclamp_in_unit is_fin_not_NaN)
qed

lemma length_generateOptimizedLUT: "length (generateOptimizedLUT ps ty sz) = sz"
  by (simp add: generateOptimizedLUT_def generateLinearLUT_def generateCubicSplineLUT_def
      generateBezierLUT_def generateParametricLUT_def generateAIOptimizedLUT_def Let_def)

lemma generateBezierLUT_in_unit:
  assumes "valid_points ps" "2 \<le> length ps" "2 \<le> sz" "i < sz"
  shows "in_unit (generateBezierLUT ps sz ! i)"
proof -
  from sample_x_Fin [OF assms(3,4)] obtain r where r: "sample_x sz i = Fin r" by blast
  have "ps \<noteq> []" using assms(2) by auto
  then show ?thesis
    using assms(4) evaluateBezier_in_unit [OF assms(1), of r] by (simp add: generateBezierLUT_def r)
qed

lemma generateOptimizedLUT_in_unit:
  assumes "valid_points ps" "strictly_increasing_x ps" "2 \<le> length ps" "2 \<le> sz" "i < sz"
  shows "in_unit (generateOptimizedLUT ps ty sz ! i)"
  using assms generateLinearLUT_in_unit [of ps sz i] generateCubicSplineLUT_in_unit [of ps sz i]
    generateBezierLUT_in_unit [of ps sz i] generateParametricLUT_in_unit [of ps sz i]
  by (simp add: generateOptimizedLUT_def generateAIOptimizedLUT_def in_unit_Fin)

lemma spline_l_positive:
  assumes "valid_points ps" "strictly_increasing_x ps" "Suc i < length ps"
  shows "\<exists>r. spline_l ps i = Fin r \<and> r \<noteq> 0"
  using spline_lmz_Fin [OF assms] by (auto simp: spline_l_def)

lemma spline_h_positive:
  assumes "valid_points ps" "strictly_increasing_x ps" "Suc i < length ps"
  shows "\<exists>r. spline_h ps i = Fin r \<and> r \<noteq> 0"
    and "\<exists>r. dmul (Fin 3) (spline_h ps i) = Fin r \<and> r \<noteq> 0"
  using spline_h_Fin [OF assms] by auto

lemma divisors_nonzero_on_increasing_x:
  assumes "valid_points ps" "strictly_increasing_x ps"
  shows "\<forall>d \<in> set (spline_divisors ps @ parametric_divisors ps). \<exists>r. d = Fin r \<and> r \<noteq> 0"
proof -
  note h = spline_h_positive [OF assms] and l = spline_l_positive [OF assms]
  have par: "\<exists>r. pt_x (ps ! 1) = Fin r \<and> r \<noteq> 0" if "2 < length ps"
  proof -
    have v: "valid_point (ps ! 0)" "valid_point (ps ! Suc 0)"
      using assms(1) that by (auto intro: valid_points_nth)
    have "rx (ps ! 0) < rx (ps ! Suc 0)"
      using increasing_nth [OF assms, of 0 "Suc 0"] that by simp
    then have "0 < rx (ps ! Suc 0)" using valid_point_Fin(3) [OF v(1)] by simp
    then show ?thesis by (simp add: valid_point_Fin(1) [OF v(2)])
  qed
  have h': "\<exists>r. spline_h ps (i - Suc 0) = Fin r \<and> r \<noteq> 0" if "Suc 0 \<le> i" "i < length ps" for i
    using h(1) [of "i - Suc 0"] that by simp
  have "\<exists>r. d = Fin r \<and> r \<noteq> 0" if "d \<in> set (spline_divisors ps)" for d
    using that h h' l by (auto simp: spline_divisors_def split: if_splits)
  then show ?thesis
    using par by (auto simp: parametric_divisors_def)
qed


end
